theory Spec2Isabelle
  imports Complex_Main "HOL-Library.Multiset" "HOL-Library.Sublist"
begin

section \<open>NexGen order orchestration (app.py)\<close>

text \<open>
  The program is one script over pandas tables. Its numbers are float64; here a finite
  number is a \<^typ>\<open>real\<close>, so rounding, overflow and NaN arithmetic are outside the
  development, and a missing value is a value of its own where the code treats one.
  Strings are ASCII byte strings.
\<close>

subsection \<open>Cells and errors\<close>

text \<open>
  A cell of a table read from a file: missing (pandas' NaN), a number, or a string.
\<close>

datatype cell = NA | Num real | Str string

text \<open>
  The ways a run ends early: the two stops of the handler, Python's KeyError and
  IndexError, and an input on which this development makes no statement.
\<close>

datatype error =
    NoInventory
  | NoRoute
  | KeyError string
  | IndexError
  | NotModelled

section \<open>The enrichment stage (lines 51 to 73)\<close>

text \<open>
  A table is its column names and its rows; a row gives the cell under each column name.
  Column names are those left by \<open>clean_columns\<close>, and a table's column names are
  distinct. The component columns of the cost table are numeric, so a cost row gives each
  of them a number or no value.
\<close>

type_synonym row = "string \<Rightarrow> cell"

record frame =
  columns :: "string list"
  rows :: "row list"

record cost_row =
  order_id :: cell
  amounts :: "string \<Rightarrow> real option"

record cost_frame =
  cost_cols :: "string list"
  cost_rows :: "cost_row list"

subsection \<open>total_cost (lines 51 to 52)\<close>

definition endswith :: "string \<Rightarrow> string \<Rightarrow> bool" where
  "endswith s suf = suffix suf s"

definition cost_columns :: "string list \<Rightarrow> string list" where
  "cost_columns cols = filter (\<lambda>col. endswith col ''_inr'' \<and> col \<noteq> ''order_id'') cols"

text \<open>\<open>sum(axis=1)\<close> skips missing values, and the sum of no value is 0.\<close>

definition total_cost :: "string list \<Rightarrow> cost_row \<Rightarrow> real" where
  "total_cost cols r =
     sum_list (map (\<lambda>col. case amounts r col of None \<Rightarrow> 0 | Some x \<Rightarrow> x) (cost_columns cols))"

subsection \<open>Weather labels (lines 54 to 62)\<close>

text \<open>
  \<open>astype(str)\<close> writes a missing value as \<open>nan\<close> and a number as Python prints it; the
  printing of numbers is the parameter \<open>repr\<close>. \<open>map\<close> gives a missing value off the
  dictionary, which \<open>fillna(0)\<close> replaces.
\<close>

definition weather_mapping :: "(string \<times> real) list" where
  "weather_mapping = [(''low'', 1), (''medium'', 2), (''high'', 3), (''severe'', 4)]"

definition ascii_lower :: "char \<Rightarrow> char" where
  "ascii_lower c =
     (case map_of (zip ''ABCDEFGHIJKLMNOPQRSTUVWXYZ'' ''abcdefghijklmnopqrstuvwxyz'') c of
        None \<Rightarrow> c
      | Some l \<Rightarrow> l)"

definition astype_str :: "(real \<Rightarrow> string) \<Rightarrow> cell \<Rightarrow> string" where
  "astype_str repr c = (case c of NA \<Rightarrow> ''nan'' | Num x \<Rightarrow> repr x | Str s \<Rightarrow> s)"

definition fillna_cell :: "real \<Rightarrow> cell \<Rightarrow> cell" where
  "fillna_cell v c = (case c of NA \<Rightarrow> Num v | _ \<Rightarrow> c)"

definition weather_ordinal :: "(real \<Rightarrow> string) \<Rightarrow> cell \<Rightarrow> cell" where
  "weather_ordinal repr c =
     fillna_cell 0
       (case map_of weather_mapping (map ascii_lower (astype_str repr c)) of
          None \<Rightarrow> NA
        | Some n \<Rightarrow> Num n)"

definition map_weather :: "(real \<Rightarrow> string) \<Rightarrow> frame \<Rightarrow> frame" where
  "map_weather repr routes =
     (if ''weather_impact'' \<in> set (columns routes)
      then routes\<lparr>rows := map (\<lambda>r. r(''weather_impact'' := weather_ordinal repr (r ''weather_impact'')))
                              (rows routes)\<rparr>
      else routes)"

subsection \<open>Traffic delay (line 64)\<close>

text \<open>
  \<open>pd.to_numeric(errors="coerce")\<close> reads a string as a number or gives a missing value;
  the reading of strings is the parameter \<open>parse\<close>.
\<close>

definition to_numeric :: "(string \<Rightarrow> real option) \<Rightarrow> cell \<Rightarrow> cell" where
  "to_numeric parse c =
     (case c of Str s \<Rightarrow> (case parse s of None \<Rightarrow> NA | Some x \<Rightarrow> Num x) | _ \<Rightarrow> c)"

definition coerce_traffic :: "(string \<Rightarrow> real option) \<Rightarrow> frame \<Rightarrow> frame" where
  "coerce_traffic parse routes =
     routes\<lparr>rows := map (\<lambda>r. r(''traffic_delay_minutes'' :=
                              fillna_cell 0 (to_numeric parse (r ''traffic_delay_minutes''))))
                        (rows routes)\<rparr>"

subsection \<open>The two left joins (lines 67 to 71)\<close>

definition delivery_fields :: "string list" where
  "delivery_fields =
     [''delivery_status'', ''promised_delivery_days'', ''actual_delivery_days'', ''delivery_cost_inr'']"

text \<open>
  \<open>merge(on="order_id", how="left")\<close>: every left row, in order, once per right row with
  the same key, in the right table's order; a left row without a match appears once with
  the new columns missing. The new columns are not columns of the left table.
\<close>

definition left_merge :: "string list \<Rightarrow> frame \<Rightarrow> row list \<Rightarrow> frame" where
  "left_merge new_cols left right_rows =
     \<lparr>columns = columns left @ new_cols,
      rows = concat (map (\<lambda>l.
               case filter (\<lambda>r. r ''order_id'' = l ''order_id'') right_rows of
                 [] \<Rightarrow> [\<lambda>col. if col \<in> set new_cols then NA else l col]
               | ms \<Rightarrow> map (\<lambda>r col. if col \<in> set new_cols then r col else l col) ms)
             (rows left))\<rparr>"

text \<open>The rows of \<open>costs[["order_id", "total_cost"]]\<close>.\<close>

definition cost_key_rows :: "cost_frame \<Rightarrow> row list" where
  "cost_key_rows costs =
     map (\<lambda>r col. if col = ''order_id'' then order_id r
                   else if col = ''total_cost'' then Num (total_cost (cost_cols costs) r)
                   else NA)
       (cost_rows costs)"

text \<open>The table \<open>routes\<close> after line 71.\<close>

definition merged_routes ::
  "(real \<Rightarrow> string) \<Rightarrow> (string \<Rightarrow> real option) \<Rightarrow> frame \<Rightarrow> frame \<Rightarrow> cost_frame \<Rightarrow> frame" where
  "merged_routes repr parse routes delivery costs =
     left_merge [''total_cost'']
       (left_merge delivery_fields (coerce_traffic parse (map_weather repr routes)) (rows delivery))
       (cost_key_rows costs)"

subsection \<open>Filling the gaps (lines 72 to 73)\<close>

text \<open>
  \<open>Series.median()\<close> skips missing values: the middle value of the sorted numbers, or the
  mean of the two middle values; there is none when every value is missing.
\<close>

definition median :: "real list \<Rightarrow> real option" where
  "median xs =
     (if xs = [] then None
      else let s = sort xs; n = length s
           in Some (if odd n then s ! (n div 2) else (s ! (n div 2 - 1) + s ! (n div 2)) / 2))"

definition populated :: "string \<Rightarrow> frame \<Rightarrow> real list" where
  "populated col f = List.map_filter (\<lambda>r. case r col of Num x \<Rightarrow> Some x | _ \<Rightarrow> None) (rows f)"

text \<open>Filling with a median that is itself missing changes nothing.\<close>

definition impute_total_cost :: "frame \<Rightarrow> frame" where
  "impute_total_cost f =
     (case median (populated ''total_cost'' f) of
        None \<Rightarrow> f
      | Some m \<Rightarrow> f\<lparr>rows := map (\<lambda>r. r(''total_cost'' := fillna_cell m (r ''total_cost''))) (rows f)\<rparr>)"

definition fillna0 :: "frame \<Rightarrow> frame" where
  "fillna0 f =
     f\<lparr>rows := map (\<lambda>r col. if col \<in> set (columns f) then fillna_cell 0 (r col) else r col) (rows f)\<rparr>"

text \<open>
  Lines 51 to 73 as one function. A column the code reads and the table lacks raises
  KeyError, in the order of the lines. When \<open>routes\<close> already has a column named like a
  delivery column, pandas renames both with suffixes; that case is not modelled. When it
  already has a \<open>total_cost\<close> column, the renaming leaves no column of that name and line 72
  raises KeyError.
\<close>

definition enrich ::
  "(real \<Rightarrow> string) \<Rightarrow> (string \<Rightarrow> real option) \<Rightarrow> frame \<Rightarrow> frame \<Rightarrow> cost_frame \<Rightarrow> error + frame" where
  "enrich repr parse routes delivery costs =
     (if ''traffic_delay_minutes'' \<notin> set (columns routes) then Inl (KeyError ''traffic_delay_minutes'')
      else case filter (\<lambda>c. c \<notin> set (columns delivery)) (''order_id'' # delivery_fields) of
             c # _ \<Rightarrow> Inl (KeyError c)
           | [] \<Rightarrow>
               if ''order_id'' \<notin> set (columns routes) then Inl (KeyError ''order_id'')
               else if \<exists>c \<in> set delivery_fields. c \<in> set (columns routes) then Inl NotModelled
               else if ''order_id'' \<notin> set (cost_cols costs) then Inl (KeyError ''order_id'')
               else if ''total_cost'' \<in> set (columns routes) then Inl (KeyError ''total_cost'')
               else Inr (fillna0 (impute_total_cost (merged_routes repr parse routes delivery costs))))"

section \<open>The request handler (lines 75 to 146)\<close>

subsection \<open>Tables read by the request handler\<close>

text \<open>
  The columns of \<open>warehouse\<close>, \<open>fleet\<close> and of the enriched \<open>routes\<close> table that
  lines 94 to 146 read. The four numeric route columns hold numbers (the enrichment stage
  left no missing value); the route label is any cell.
\<close>

record warehouse_row =
  location :: string
  product_category :: string
  current_stock_units :: real
  reorder_level :: real

record vehicle_row =
  vehicle_type :: string
  fuel_efficiency_km_per_l :: real
  co2_emissions_kg_per_km :: real

record route_row =
  route :: cell
  rt_distance_km :: real
  rt_traffic_delay_minutes :: real
  rt_weather_impact :: real
  rt_total_cost :: real

text \<open>
  How the handler reads a row of the enriched table. A numeric column that holds no number
  has no reading here (pandas would not average it).
\<close>

definition route_view :: "(string \<Rightarrow> cell) \<Rightarrow> route_row option" where
  "route_view r =
     (case (r ''distance_km'', r ''traffic_delay_minutes'', r ''weather_impact'', r ''total_cost'') of
        (Num d, Num t, Num w, Num c) \<Rightarrow>
          Some \<lparr>route = r ''route'', rt_distance_km = d, rt_traffic_delay_minutes = t,
                rt_weather_impact = w, rt_total_cost = c\<rparr>
      | _ \<Rightarrow> None)"

text \<open>The three sidebar inputs (lines 83 to 85).\<close>

record request =
  product :: string
  priority :: string
  destination :: string

text \<open>One dictionary appended to \<open>options\<close> (lines 120 to 130).\<close>

record candidate =
  warehouse :: string
  vehicle :: string
  distance_km :: real
  traffic_delay_minutes :: real
  weather_impact :: real
  fuel_efficiency :: real
  co2 :: real
  cost :: real
  inventory_health :: real

text \<open>A row of \<open>options_df\<close> after the scoring engine added its six columns.\<close>

record scored = candidate +
  cost_n :: real
  delay_risk :: real
  distance_n :: real
  co2_n :: real
  inventory_n :: real
  fulfillment_score :: real

subsection \<open>normalize (lines 75 to 76)\<close>

text \<open>
  \<open>col.min()\<close> and \<open>col.max()\<close> of a non-empty column are folds over its entries; on
  the empty column the arithmetic maps over no entry and the result is empty.
\<close>

definition normalize :: "real list \<Rightarrow> real list" where
  "normalize col =
     (case col of
        [] \<Rightarrow> []
      | x # xs \<Rightarrow>
          map (\<lambda>v. (v - fold min xs x) / (fold max xs x - fold min xs x + 1 / 1000000)) col)"

subsection \<open>The composite score (lines 141 to 144)\<close>

definition fulfillment_formula :: "real \<Rightarrow> real \<Rightarrow> real \<Rightarrow> real \<Rightarrow> real \<Rightarrow> real" where
  "fulfillment_formula c_n d_r d_n e_n i_n =
     0.35 * c_n + 0.25 * d_r + 0.20 * d_n + 0.10 * e_n + 0.10 * i_n"

text \<open>
  The scoring engine works column by column (lines 135 to 139) and then row by row on the
  new columns.
\<close>

definition score_options :: "candidate list \<Rightarrow> scored list" where
  "score_options options_df =
     (let cost_ns = normalize (map cost options_df);
          delay_risks = normalize (map (\<lambda>c. traffic_delay_minutes c + weather_impact c) options_df);
          distance_ns = normalize (map distance_km options_df);
          co2_ns = normalize (map co2 options_df);
          inventory_ns = map (\<lambda>x. 1 - x) (normalize (map inventory_health options_df))
      in map (\<lambda>i.
            \<lparr>warehouse = warehouse (options_df ! i),
             vehicle = vehicle (options_df ! i),
             distance_km = distance_km (options_df ! i),
             traffic_delay_minutes = traffic_delay_minutes (options_df ! i),
             weather_impact = weather_impact (options_df ! i),
             fuel_efficiency = fuel_efficiency (options_df ! i),
             co2 = co2 (options_df ! i),
             cost = cost (options_df ! i),
             inventory_health = inventory_health (options_df ! i),
             cost_n = cost_ns ! i,
             delay_risk = delay_risks ! i,
             distance_n = distance_ns ! i,
             co2_n = co2_ns ! i,
             inventory_n = inventory_ns ! i,
             fulfillment_score =
               fulfillment_formula (cost_ns ! i) (delay_risks ! i) (distance_ns ! i)
                 (co2_ns ! i) (inventory_ns ! i)\<rparr>)
          [0..<length options_df])"

subsection \<open>Filtering warehouses (lines 96 to 99)\<close>

definition available_wh :: "warehouse_row list \<Rightarrow> string \<Rightarrow> warehouse_row list" where
  "available_wh warehouse_df prod_cat =
     filter (\<lambda>w. product_category w = prod_cat \<and> current_stock_units w > reorder_level w)
       warehouse_df"

subsection \<open>Filtering routes (line 106)\<close>

text \<open>
  \<open>Series.str.contains(pat, case=False, na=False)\<close> keeps pandas' default \<open>regex=True\<close>:
  the destination is compiled as a regular expression with \<open>re.IGNORECASE\<close> and searched
  in each label. The fragment of the pattern language modelled here is: an ordinary
  character stands for itself, and the dot stands for any character but the newline. A
  pattern with another special character is outside the fragment.
\<close>

definition regex_special :: "char \<Rightarrow> bool" where
  "regex_special c \<longleftrightarrow>
     c \<in> set [CHR 0x5C, CHR ''^'', CHR ''$'', CHR ''*'', CHR ''+'', CHR ''?'', CHR ''{'',
       CHR ''}'', CHR ''['', CHR '']'', CHR ''|'', CHR ''('', CHR '')'']"

datatype re_item = Lit char | AnyChar

fun re_compile :: "string \<Rightarrow> re_item list option" where
  "re_compile [] = Some []"
| "re_compile (c # cs) =
     (if regex_special c then None
      else case re_compile cs of
             None \<Rightarrow> None
           | Some items \<Rightarrow> Some ((if c = CHR ''.'' then AnyChar else Lit c) # items))"

fun item_matches :: "re_item \<Rightarrow> char \<Rightarrow> bool" where
  "item_matches (Lit p) c = (ascii_lower p = ascii_lower c)"
| "item_matches AnyChar c = (c \<noteq> CHR 0x0A)"

fun match_here :: "re_item list \<Rightarrow> string \<Rightarrow> bool" where
  "match_here [] s = True"
| "match_here (p # ps) [] = False"
| "match_here (p # ps) (c # cs) = (item_matches p c \<and> match_here ps cs)"

fun re_search :: "re_item list \<Rightarrow> string \<Rightarrow> bool" where
  "re_search pat [] = match_here pat []"
| "re_search pat (c # cs) = (match_here pat (c # cs) \<or> re_search pat cs)"

text \<open>A cell that holds no string gives NaN, which \<open>na=False\<close> turns into False.\<close>

definition str_contains :: "re_item list \<Rightarrow> cell \<Rightarrow> bool" where
  "str_contains pat c = (case c of Str label \<Rightarrow> re_search pat label | _ \<Rightarrow> False)"

definition route_data :: "route_row list \<Rightarrow> string \<Rightarrow> error + route_row list" where
  "route_data routes_df dest =
     (case re_compile dest of
        None \<Rightarrow> Inl NotModelled
      | Some pat \<Rightarrow> Inr (filter (\<lambda>r. str_contains pat (route r)) routes_df))"



subsection \<open>Building and scoring the options (lines 112 to 144)\<close>

definition mean :: "real list \<Rightarrow> real" where
  "mean xs = sum_list xs / real (length xs)"

definition build_options ::
  "warehouse_row list \<Rightarrow> vehicle_row list \<Rightarrow> real \<Rightarrow> real \<Rightarrow> real \<Rightarrow> real \<Rightarrow> candidate list" where
  "build_options avail fleet_df avg_distance avg_traffic avg_weather avg_cost =
     concat (map (\<lambda>wh. map (\<lambda>v.
         \<lparr>warehouse = location wh,
          vehicle = vehicle_type v,
          distance_km = avg_distance,
          traffic_delay_minutes = avg_traffic,
          weather_impact = avg_weather,
          fuel_efficiency = fuel_efficiency_km_per_l v,
          co2 = co2_emissions_kg_per_km v * avg_distance,
          cost = avg_cost,
          inventory_health = current_stock_units wh - reorder_level wh\<rparr>) fleet_df) avail)"

text \<open>
  The body of \<open>if submit:\<close> up to the list \<open>options\<close> (lines 96 to 130). \<open>st.stop()\<close>
  ends the run, so each stop is an error value.
\<close>

definition options ::
  "warehouse_row list \<Rightarrow> route_row list \<Rightarrow> vehicle_row list \<Rightarrow> request \<Rightarrow> error + candidate list" where
  "options warehouse_df routes_df fleet_df req =
     (let avail = available_wh warehouse_df (product req) in
      if avail = [] then Inl NoInventory
      else case route_data routes_df (destination req) of
             Inl e \<Rightarrow> Inl e
           | Inr rd \<Rightarrow>
               if rd = [] then Inl NoRoute
               else Inr (build_options avail fleet_df
                          (mean (map rt_distance_km rd))
                          (mean (map rt_traffic_delay_minutes rd))
                          (mean (map rt_weather_impact rd))
                          (mean (map rt_total_cost rd))))"

text \<open>
  The scored table (lines 132 to 144). With an empty fleet \<open>options\<close> is empty,
  \<open>pd.DataFrame([])\<close> has no column and \<open>options_df["cost"]\<close> raises KeyError.
\<close>

definition submit ::
  "warehouse_row list \<Rightarrow> route_row list \<Rightarrow> vehicle_row list \<Rightarrow> request \<Rightarrow> error + scored list" where
  "submit warehouse_df routes_df fleet_df req =
     (case options warehouse_df routes_df fleet_df req of
        Inl e \<Rightarrow> Inl e
      | Inr opts \<Rightarrow> if opts = [] then Inl (KeyError ''cost'') else Inr (score_options opts))"

subsection \<open>Selecting the best option (line 146)\<close>

text \<open>
  \<open>sort_values("fulfillment_score")\<close> sorts ascending with pandas' default
  \<open>kind="quicksort"\<close>, which the library documents as not stable: the result is some
  reordering of the rows with ascending scores, and the order among rows of equal score is
  not fixed. \<open>sort_values df out\<close> says that \<open>out\<close> is such a result.
\<close>

definition sort_values :: "scored list \<Rightarrow> scored list \<Rightarrow> bool" where
  "sort_values df out \<longleftrightarrow> mset out = mset df \<and> sorted (map fulfillment_score out)"

definition iloc0 :: "'a list \<Rightarrow> error + 'a" where
  "iloc0 xs = (case xs of [] \<Rightarrow> Inl IndexError | x # _ \<Rightarrow> Inr x)"

inductive best_option ::
  "warehouse_row list \<Rightarrow> route_row list \<Rightarrow> vehicle_row list \<Rightarrow> request \<Rightarrow> scored \<Rightarrow> bool" where
  "submit warehouse_df routes_df fleet_df req = Inr df \<Longrightarrow> sort_values df out \<Longrightarrow>
   iloc0 out = Inr b \<Longrightarrow> best_option warehouse_df routes_df fleet_df req b"

text \<open>
  The specification's reading of the selection: the first row, in generation order, whose
  score is the minimum of the column.
\<close>

definition first_minimum :: "scored list \<Rightarrow> scored option" where
  "first_minimum df =
     (case df of
        [] \<Rightarrow> None
      | x # xs \<Rightarrow>
          find (\<lambda>c. fulfillment_score c =
                  fold min (map fulfillment_score xs) (fulfillment_score x)) df)"

section \<open>Example tables\<close>

text \<open>Small tables on which the theorems below are run.\<close>

definition mk_row :: "(string \<times> cell) list \<Rightarrow> row" where
  "mk_row kvs = (\<lambda>col. case map_of kvs col of None \<Rightarrow> NA | Some c \<Rightarrow> c)"

definition raw_routes :: frame where
  "raw_routes =
     \<lparr>columns = [''order_id'', ''route'', ''distance_km'', ''traffic_delay_minutes'', ''weather_impact''],
      rows =
        [mk_row [(''order_id'', Str ''O1''), (''route'', Str ''Mumbai-Delhi''), (''distance_km'', Num 1400),
                 (''traffic_delay_minutes'', Str ''30''), (''weather_impact'', Str ''Severe'')],
         mk_row [(''order_id'', Str ''O2''), (''distance_km'', Num 700),
                 (''traffic_delay_minutes'', Str ''n/a''), (''weather_impact'', Str ''unknown'')],
         mk_row [(''order_id'', Str ''O3''), (''route'', Str ''Kolkata-DELHI''), (''distance_km'', Num 1500),
                 (''traffic_delay_minutes'', Num 10)]]\<rparr>"

definition raw_delivery :: frame where
  "raw_delivery =
     \<lparr>columns = [''order_id'', ''delivery_status'', ''promised_delivery_days'',
                 ''actual_delivery_days'', ''delivery_cost_inr''],
      rows =
        [mk_row [(''order_id'', Str ''O1''), (''delivery_status'', Str ''On-Time''),
                 (''promised_delivery_days'', Num 3), (''actual_delivery_days'', Num 3),
                 (''delivery_cost_inr'', Num 500)],
         mk_row [(''order_id'', Str ''O3''), (''delivery_status'', Str ''Delayed''),
                 (''promised_delivery_days'', Num 2), (''actual_delivery_days'', Num 5),
                 (''delivery_cost_inr'', Num 650)]]\<rparr>"

definition raw_costs :: cost_frame where
  "raw_costs =
     \<lparr>cost_cols = [''order_id'', ''fuel_cost_inr'', ''labor_cost_inr'', ''notes''],
      cost_rows =
        [\<lparr>order_id = Str ''O1'',
          amounts = map_of [(''fuel_cost_inr'', 200), (''labor_cost_inr'', 100)]\<rparr>,
         \<lparr>order_id = Str ''O3'', amounts = map_of [(''fuel_cost_inr'', 150)]\<rparr>]\<rparr>"

definition demo_repr :: "real \<Rightarrow> string" where
  "demo_repr x = ''0.0''"

definition demo_parse :: "string \<Rightarrow> real option" where
  "demo_parse s = (if s = ''30'' then Some 30 else None)"

definition enriched_routes :: frame where
  "enriched_routes =
     fillna0 (impute_total_cost (merged_routes demo_repr demo_parse raw_routes raw_delivery raw_costs))"

definition demo_warehouse :: "warehouse_row list" where
  "demo_warehouse =
     [\<lparr>location = ''Mumbai'', product_category = ''Electronics'',
       current_stock_units = 120, reorder_level = 40\<rparr>,
      \<lparr>location = ''Pune'', product_category = ''Fashion'',
       current_stock_units = 90, reorder_level = 20\<rparr>,
      \<lparr>location = ''Chennai'', product_category = ''Electronics'',
       current_stock_units = 30, reorder_level = 30\<rparr>,
      \<lparr>location = ''Kolkata'', product_category = ''Electronics'',
       current_stock_units = 300, reorder_level = 100\<rparr>]"

definition demo_fleet :: "vehicle_row list" where
  "demo_fleet =
     [\<lparr>vehicle_type = ''Truck'', fuel_efficiency_km_per_l = 5, co2_emissions_kg_per_km = 9 / 10\<rparr>,
      \<lparr>vehicle_type = ''Van'', fuel_efficiency_km_per_l = 10, co2_emissions_kg_per_km = 1 / 2\<rparr>,
      \<lparr>vehicle_type = ''Bike'', fuel_efficiency_km_per_l = 40, co2_emissions_kg_per_km = 1 / 10\<rparr>]"

definition demo_routes :: "route_row list" where
  "demo_routes =
     [\<lparr>route = Str ''Mumbai-Delhi'', rt_distance_km = 1400, rt_traffic_delay_minutes = 30,
       rt_weather_impact = 4, rt_total_cost = 300\<rparr>,
      \<lparr>route = Num 0, rt_distance_km = 700, rt_traffic_delay_minutes = 0,
       rt_weather_impact = 0, rt_total_cost = 225\<rparr>,
      \<lparr>route = Str ''Kolkata-DELHI'', rt_distance_km = 1500, rt_traffic_delay_minutes = 10,
       rt_weather_impact = 0, rt_total_cost = 150\<rparr>]"

definition demo_request :: request where
  "demo_request = \<lparr>product = ''Electronics'', priority = ''Express'', destination = ''delhi''\<rparr>"

definition demo_options :: "candidate list" where
  "demo_options =
     build_options [demo_warehouse ! 0, demo_warehouse ! 3] demo_fleet 1450 20 2 225"

definition demo_df :: "scored list" where
  "demo_df = score_options demo_options"

text \<open>
  One warehouse and eighteen vehicles, of which the fourth and the ninth share the lowest
  emission rate: eighteen candidates, two of them with the minimal score.
\<close>

definition tie_warehouse :: "warehouse_row list" where
  "tie_warehouse =
     [\<lparr>location = ''Mumbai'', product_category = ''Electronics'',
       current_stock_units = 120, reorder_level = 40\<rparr>]"

definition tie_routes :: "route_row list" where
  "tie_routes =
     [\<lparr>route = Str ''Mumbai-Delhi'', rt_distance_km = 100, rt_traffic_delay_minutes = 30,
       rt_weather_impact = 2, rt_total_cost = 5000\<rparr>]"

definition tie_fleet :: "vehicle_row list" where
  "tie_fleet =
     map (\<lambda>(name, rate). \<lparr>vehicle_type = name, fuel_efficiency_km_per_l = 10,
                           co2_emissions_kg_per_km = rate\<rparr>)
       [(''V00'', 2), (''V01'', 2), (''V02'', 2), (''V03'', 1), (''V04'', 2), (''V05'', 2),
        (''V06'', 2), (''V07'', 2), (''V08'', 1), (''V09'', 2), (''V10'', 2), (''V11'', 2),
        (''V12'', 2), (''V13'', 2), (''V14'', 2), (''V15'', 2), (''V16'', 2), (''V17'', 2)]"

definition tie_request :: request where
  "tie_request = \<lparr>product = ''Electronics'', priority = ''Express'', destination = ''Delhi''\<rparr>"

definition tie_df :: "scored list" where
  "tie_df = score_options (build_options tie_warehouse tie_fleet 100 30 2 5000)"

definition tie_sorted :: "scored list" where
  "tie_sorted =
     map (\<lambda>i. tie_df ! i) [8, 3, 0, 1, 2, 4, 5, 6, 7, 9, 10, 11, 12, 13, 14, 15, 16, 17]"


section \<open>Properties of the enrichment stage\<close>

text \<open>
  C8. A weather label equal, letter case ignored, to low, medium, high or severe becomes the
  ordinal 1, 2, 3 or 4; every other label and the missing label become 0, and so does a
  number, which is not printed as one of the four words; and when the routes table has the
  weather column, that is the column's content after the mapping.
\<close>

theorem weather_ordinal_labels:
  "weather_ordinal repr (Str label) =
     Num (if map ascii_lower label = ''low'' then 1
          else if map ascii_lower label = ''medium'' then 2
          else if map ascii_lower label = ''high'' then 3
          else if map ascii_lower label = ''severe'' then 4
          else 0) \<and>
   weather_ordinal repr NA = Num 0 \<and>
   (map ascii_lower (repr x) \<notin> {''low'', ''medium'', ''high'', ''severe''} \<longrightarrow>
      weather_ordinal repr (Num x) = Num 0) \<and>
   (''weather_impact'' \<in> set (columns routes) \<longrightarrow>
      map (\<lambda>r. r ''weather_impact'') (rows (map_weather repr routes)) =
      map (\<lambda>r. weather_ordinal repr (r ''weather_impact'')) (rows routes))"
  by (simp add: weather_ordinal_def weather_mapping_def astype_str_def fillna_cell_def
      ascii_lower_def map_weather_def)

theorem weather_ordinal_labels_witness:
  "weather_ordinal demo_repr (Str ''Severe'') = Num 4 \<and>
   weather_ordinal demo_repr (Str ''unknown'') = Num 0 \<and>
   weather_ordinal demo_repr NA = Num 0 \<and>
   weather_ordinal demo_repr (Num 3) = Num 0 \<and>
   ''weather_impact'' \<in> set (columns raw_routes) \<and>
   map (\<lambda>r. r ''weather_impact'') (rows (map_weather demo_repr raw_routes)) = [Num 4, Num 0, Num 0]"
proof -
  have c: "''weather_impact'' \<in> set (columns raw_routes)"
    by (simp add: raw_routes_def)
  have e: "map (\<lambda>r. weather_ordinal demo_repr (r ''weather_impact'')) (rows raw_routes) =
           [Num 4, Num 0, Num 0]"
    by code_simp
  have l: "map ascii_lower ''Severe'' = ''severe''" "map ascii_lower ''unknown'' = ''unknown''"
    "map ascii_lower (demo_repr 3) = ''0.0''"
    by code_simp+
  show ?thesis
    using weather_ordinal_labels [of demo_repr "''Severe''" 3 raw_routes]
      weather_ordinal_labels [of demo_repr "''unknown''" 3 raw_routes] c e l
    by simp
qed

subsection \<open>total_cost, the median fill and the zero fill\<close>

lemma total_cost_as_column_sum:
  "total_cost cols r =
     (\<Sum>col \<leftarrow> cols. if suffix ''_inr'' col \<and> col \<noteq> ''order_id''
                    then (case amounts r col of None \<Rightarrow> 0 | Some x \<Rightarrow> x) else 0)"
  unfolding total_cost_def cost_columns_def endswith_def by (rule sum_list_map_filter')

lemma left_merge_new_cell:
  assumes "row \<in> set (rows (left_merge [''total_cost''] left (cost_key_rows costs)))"
  shows "(row ''total_cost'' = NA \<and> (\<forall>r \<in> set (cost_rows costs). order_id r \<noteq> row ''order_id'')) \<or>
         (\<exists>r \<in> set (cost_rows costs). order_id r = row ''order_id'' \<and>
            row ''total_cost'' = Num (total_cost (cost_cols costs) r))"
proof -
  from assms obtain l where l: "l \<in> set (rows left)"
    and row: "row \<in> set (case filter (\<lambda>r. r ''order_id'' = l ''order_id'') (cost_key_rows costs) of
                 [] \<Rightarrow> [\<lambda>col. if col \<in> set [''total_cost''] then NA else l col]
               | ms \<Rightarrow> map (\<lambda>r col. if col \<in> set [''total_cost''] then r col else l col) ms)"
    by (auto simp: left_merge_def)
  show ?thesis
  proof (cases "filter (\<lambda>r. r ''order_id'' = l ''order_id'') (cost_key_rows costs)")
    case Nil
    then have "\<forall>r \<in> set (cost_key_rows costs). r ''order_id'' \<noteq> l ''order_id''"
      by (simp add: filter_empty_conv)
    then have "\<forall>r \<in> set (cost_rows costs). order_id r \<noteq> l ''order_id''"
      by (simp add: cost_key_rows_def)
    then show ?thesis using row Nil by simp
  next
    case (Cons m ms)
    with row obtain k
      where k: "k \<in> set (filter (\<lambda>r. r ''order_id'' = l ''order_id'') (cost_key_rows costs))"
        and rk: "row = (\<lambda>col. if col \<in> set [''total_cost''] then k col else l col)"
      by auto
    from k obtain r where r: "r \<in> set (cost_rows costs)" "order_id r = l ''order_id''"
      "k ''total_cost'' = Num (total_cost (cost_cols costs) r)"
      by (auto simp: cost_key_rows_def)
    then show ?thesis using rk by auto
  qed
qed

lemma fillna0_impute_shape:
  "columns (fillna0 (impute_total_cost f)) = columns f"
  "length (rows (fillna0 (impute_total_cost f))) = length (rows f)"
  by (simp_all add: fillna0_def impute_total_cost_def split: option.splits)

lemma fillna0_impute_total:
  assumes "i < length (rows f)" "''total_cost'' \<in> set (columns f)"
  shows "(rows (fillna0 (impute_total_cost f)) ! i) ''total_cost'' =
     (case (rows f ! i) ''total_cost'' of
        NA \<Rightarrow> (case median (populated ''total_cost'' f) of None \<Rightarrow> Num 0 | Some m \<Rightarrow> Num m)
      | c \<Rightarrow> c)"
  using assms
  by (simp add: fillna0_def impute_total_cost_def fillna_cell_def split: option.splits cell.splits)

lemma fillna0_impute_other:
  assumes "i < length (rows f)" "col \<in> set (columns f)" "col \<noteq> ''total_cost''"
  shows "(rows (fillna0 (impute_total_cost f)) ! i) col =
     (case (rows f ! i) col of NA \<Rightarrow> Num 0 | c \<Rightarrow> c)"
  using assms
  by (simp add: fillna0_def impute_total_cost_def fillna_cell_def split: option.splits cell.splits)

lemma enrich_Inr:
  "enrich repr parse routes delivery costs = Inr final \<Longrightarrow>
   final = fillna0 (impute_total_cost (merged_routes repr parse routes delivery costs))"
  by (simp add: enrich_def split: if_splits list.splits)

lemma total_cost_in_merged:
  "''total_cost'' \<in> set (columns (merged_routes repr parse routes delivery costs))"
  by (simp add: merged_routes_def left_merge_def)

text \<open>
  C7. When the enrichment stage succeeds: the total cost of a cost record is the sum over
  the columns of the cost table whose name ends in \<open>_inr\<close> and is not \<open>order_id\<close>, a
  missing amount counting 0; after the left joins a row has no total cost when no cost
  record has its order identifier, and otherwise the total cost of such a record; the final
  table has the columns and as many rows as the joined table; a row's missing total cost
  becomes the median of the total costs present in the joined table (0 when none is
  present), a present one is kept; and in every other column a missing value becomes 0 and
  a present one is kept.
\<close>

theorem enrich_total_cost:
  assumes "enrich repr parse routes delivery costs = Inr final"
  shows
    "(\<forall>r \<in> set (cost_rows costs).
        total_cost (cost_cols costs) r =
          (\<Sum>col \<leftarrow> cost_cols costs.
             if suffix ''_inr'' col \<and> col \<noteq> ''order_id''
             then (case amounts r col of None \<Rightarrow> 0 | Some x \<Rightarrow> x) else 0)) \<and>
     (\<forall>row \<in> set (rows (merged_routes repr parse routes delivery costs)).
        (row ''total_cost'' = NA \<and> (\<forall>r \<in> set (cost_rows costs). order_id r \<noteq> row ''order_id'')) \<or>
        (\<exists>r \<in> set (cost_rows costs). order_id r = row ''order_id'' \<and>
            row ''total_cost'' = Num (total_cost (cost_cols costs) r))) \<and>
     columns final = columns (merged_routes repr parse routes delivery costs) \<and>
     length (rows final) = length (rows (merged_routes repr parse routes delivery costs)) \<and>
     (\<forall>i < length (rows final).
        (rows final ! i) ''total_cost'' =
          (case (rows (merged_routes repr parse routes delivery costs) ! i) ''total_cost'' of
             NA \<Rightarrow> (case median (populated ''total_cost''
                               (merged_routes repr parse routes delivery costs)) of
                      None \<Rightarrow> Num 0
                    | Some m \<Rightarrow> Num m)
           | c \<Rightarrow> c) \<and>
        (\<forall>col \<in> set (columns final). col \<noteq> ''total_cost'' \<longrightarrow>
           (rows final ! i) col =
             (case (rows (merged_routes repr parse routes delivery costs) ! i) col of
                NA \<Rightarrow> Num 0
              | c \<Rightarrow> c)))"
proof -
  let ?m = "merged_routes repr parse routes delivery costs"
  note fin = enrich_Inr [OF assms]
  have a: "\<forall>r \<in> set (cost_rows costs).
        total_cost (cost_cols costs) r =
          (\<Sum>col \<leftarrow> cost_cols costs.
             if suffix ''_inr'' col \<and> col \<noteq> ''order_id''
             then (case amounts r col of None \<Rightarrow> 0 | Some x \<Rightarrow> x) else 0)"
    using total_cost_as_column_sum by blast
  have b: "\<forall>row \<in> set (rows ?m).
        (row ''total_cost'' = NA \<and> (\<forall>r \<in> set (cost_rows costs). order_id r \<noteq> row ''order_id'')) \<or>
        (\<exists>r \<in> set (cost_rows costs). order_id r = row ''order_id'' \<and>
            row ''total_cost'' = Num (total_cost (cost_cols costs) r))"
    unfolding merged_routes_def using left_merge_new_cell by blast
  have c: "columns final = columns ?m" "length (rows final) = length (rows ?m)"
    unfolding fin by (rule fillna0_impute_shape)+
  have d: "(rows final ! i) ''total_cost'' =
          (case (rows ?m ! i) ''total_cost'' of
             NA \<Rightarrow> (case median (populated ''total_cost'' ?m) of None \<Rightarrow> Num 0 | Some m \<Rightarrow> Num m)
           | c \<Rightarrow> c)" if "i < length (rows final)" for i
    unfolding fin using that c(2) total_cost_in_merged fillna0_impute_total fin by metis
  have e: "(rows final ! i) col = (case (rows ?m ! i) col of NA \<Rightarrow> Num 0 | c \<Rightarrow> c)"
    if "i < length (rows final)" "col \<in> set (columns final)" "col \<noteq> ''total_cost''" for i col
    unfolding fin using that c fillna0_impute_other fin by metis
  show ?thesis using a b c d e by blast
qed

theorem enrich_total_cost_witness:
  "enrich demo_repr demo_parse raw_routes raw_delivery raw_costs = Inr enriched_routes \<and>
   map (total_cost (cost_cols raw_costs)) (cost_rows raw_costs) = [300, 150] \<and>
   map (\<lambda>r. r ''total_cost'')
     (rows (merged_routes demo_repr demo_parse raw_routes raw_delivery raw_costs)) =
     [Num 300, NA, Num 150] \<and>
   median (populated ''total_cost''
     (merged_routes demo_repr demo_parse raw_routes raw_delivery raw_costs)) = Some 225 \<and>
   map (\<lambda>r. r ''total_cost'') (rows enriched_routes) = [Num 300, Num 225, Num 150] \<and>
   map (\<lambda>r. r ''delivery_status'') (rows enriched_routes) = [Str ''On-Time'', Num 0, Str ''Delayed''] \<and>
   map (\<lambda>r. r ''route'') (rows enriched_routes) = [Str ''Mumbai-Delhi'', Num 0, Str ''Kolkata-DELHI'']"
proof -
  have h: "enrich demo_repr demo_parse raw_routes raw_delivery raw_costs = Inr enriched_routes"
    by (simp add: enrich_def enriched_routes_def raw_routes_def raw_delivery_def raw_costs_def
        delivery_fields_def)
  have e1: "map (total_cost (cost_cols raw_costs)) (cost_rows raw_costs) = [300, 150]"
    by code_simp
  have e2: "map (\<lambda>r. r ''total_cost'')
     (rows (merged_routes demo_repr demo_parse raw_routes raw_delivery raw_costs)) =
     [Num 300, NA, Num 150]"
    by code_simp
  have e3: "median (populated ''total_cost''
     (merged_routes demo_repr demo_parse raw_routes raw_delivery raw_costs)) = Some 225"
    by code_simp
  have e4: "map (\<lambda>r. r ''total_cost'') (rows enriched_routes) = [Num 300, Num 225, Num 150]"
    by code_simp
  have e5: "map (\<lambda>r. r ''delivery_status'') (rows enriched_routes) =
     [Str ''On-Time'', Num 0, Str ''Delayed'']"
    by code_simp
  have e6: "map (\<lambda>r. r ''route'') (rows enriched_routes) =
     [Str ''Mumbai-Delhi'', Num 0, Str ''Kolkata-DELHI'']"
    by code_simp
  note t = enrich_total_cost [OF h]
  show ?thesis using t h e1 e2 e3 e4 e5 e6 by blast
qed

text \<open>The example routes of the handler are the enriched example table.\<close>

lemma demo_routes_enriched: "map route_view (rows enriched_routes) = map Some demo_routes"
  by code_simp

section \<open>Properties of the scoring engine\<close>

subsection \<open>Helper facts on columns\<close>










text \<open>
  C3. The five weights add up to 1 (the score of the row whose five features are 1 is 1),
  and a row whose five normalized features lie between 0 and 1 has a score between 0 and 1.
\<close>

theorem fulfillment_formula_convex:
  "fulfillment_formula 1 1 1 1 1 = 1 \<and>
   (0 \<le> c_n \<and> c_n \<le> 1 \<and> 0 \<le> d_r \<and> d_r \<le> 1 \<and> 0 \<le> d_n \<and> d_n \<le> 1 \<and>
    0 \<le> e_n \<and> e_n \<le> 1 \<and> 0 \<le> i_n \<and> i_n \<le> 1 \<longrightarrow>
    0 \<le> fulfillment_formula c_n d_r d_n e_n i_n \<and> fulfillment_formula c_n d_r d_n e_n i_n \<le> 1)"
  by (simp add: fulfillment_formula_def)

theorem fulfillment_formula_convex_witness:
  "fulfillment_formula 1 0 (1 / 2) 0 1 = 11 / 20 \<and>
   0 \<le> fulfillment_formula 1 0 (1 / 2) 0 1 \<and> fulfillment_formula 1 0 (1 / 2) 0 1 \<le> 1"
  using fulfillment_formula_convex [of 1 0 "1 / 2" 0 1]
  by (simp add: fulfillment_formula_def)

section \<open>Properties of the request handler\<close>

subsection \<open>Helper facts on the handler\<close>


lemma options_Inr:
  "options W R F req = Inr opts \<Longrightarrow>
   \<exists>rd. available_wh W (product req) \<noteq> [] \<and> route_data R (destination req) = Inr rd \<and>
     rd \<noteq> [] \<and>
     opts = build_options (available_wh W (product req)) F (mean (map rt_distance_km rd))
        (mean (map rt_traffic_delay_minutes rd)) (mean (map rt_weather_impact rd))
        (mean (map rt_total_cost rd))"
  by (auto simp: options_def Let_def split: sum.splits if_splits)


lemma length_build_options:
  "length (build_options av fl d t w c) = length av * length fl"
  by (induction av) (simp_all add: build_options_def)

lemma build_options_pairs:
  "map (\<lambda>c. (warehouse c, vehicle c)) (build_options av fl d t w c) =
   map (\<lambda>(wh, v). (location wh, vehicle_type v)) (List.product av fl)"
  by (induction av) (simp_all add: build_options_def comp_def)





lemma sort_values_head:
  assumes "sort_values df out" "df \<noteq> []"
  shows "\<exists>b. iloc0 out = Inr b \<and> b \<in> set df \<and>
           fulfillment_score b = Min (fulfillment_score ` set df)"
proof -
  from assms have ms: "mset out = mset df" and so: "sorted (map fulfillment_score out)"
    by (simp_all add: sort_values_def)
  from ms have se: "set out = set df" by (rule mset_eq_setD)
  with assms(2) obtain b bs where out: "out = b # bs" by (cases out) auto
  have "\<forall>c \<in> set df. fulfillment_score b \<le> fulfillment_score c"
    using so se out by auto
  moreover have "b \<in> set df" using se out by auto
  ultimately have "Min (fulfillment_score ` set df) = fulfillment_score b"
    by (intro Min_eqI) auto
  then show ?thesis using out \<open>b \<in> set df\<close> by (simp add: iloc0_def)
qed

lemma demo_options_eval:
  "options demo_warehouse demo_routes demo_fleet demo_request = Inr demo_options"
  by code_simp

lemma demo_submit_eval:
  "submit demo_warehouse demo_routes demo_fleet demo_request = Inr demo_df"
  by code_simp

subsection \<open>Eligible warehouses\<close>

text \<open>
  C5. A warehouse row is eligible for a product exactly when it is a row of the table, its
  product category is the requested product and its stock is strictly above its reorder
  level; and when no row is eligible the request stops with the no-inventory error, with
  no option list, no scored table and no selected option.
\<close>

theorem available_wh_eligibility:
  "(w \<in> set (available_wh W p) \<longleftrightarrow>
      w \<in> set W \<and> product_category w = p \<and> current_stock_units w > reorder_level w) \<and>
   (available_wh W (product req) = [] \<longrightarrow>
      options W R F req = Inl NoInventory \<and> submit W R F req = Inl NoInventory \<and>
      \<not> best_option W R F req b)"
  by (auto simp: available_wh_def options_def submit_def best_option.simps)

theorem available_wh_eligibility_witness:
  "available_wh demo_warehouse ''Electronics'' = [demo_warehouse ! 0, demo_warehouse ! 3] \<and>
   demo_warehouse ! 2 \<notin> set (available_wh demo_warehouse ''Electronics'') \<and>
   available_wh demo_warehouse (product (demo_request\<lparr>product := ''Toys''\<rparr>)) = [] \<and>
   options demo_warehouse demo_routes demo_fleet (demo_request\<lparr>product := ''Toys''\<rparr>) =
     Inl NoInventory \<and>
   submit demo_warehouse demo_routes demo_fleet (demo_request\<lparr>product := ''Toys''\<rparr>) =
     Inl NoInventory"
proof -
  have e: "available_wh demo_warehouse ''Electronics'' = [demo_warehouse ! 0, demo_warehouse ! 3]"
    "available_wh demo_warehouse (product (demo_request\<lparr>product := ''Toys''\<rparr>)) = []"
    by code_simp+
  have n: "\<not> current_stock_units (demo_warehouse ! 2) > reorder_level (demo_warehouse ! 2)"
    by code_simp
  show ?thesis
    using available_wh_eligibility [of "demo_warehouse ! 2" demo_warehouse "''Electronics''"
        "demo_request\<lparr>product := ''Toys''\<rparr>" demo_routes demo_fleet] e n
    by simp
qed

subsection \<open>Matching routes\<close>








subsection \<open>The option list\<close>

text \<open>
  C4. When the request passes the inventory check and the route check, the option list has
  exactly (number of eligible warehouses) times (number of rows of the fleet table)
  entries: one per pair of an eligible warehouse and a vehicle, warehouse by warehouse and,
  for each, vehicle by vehicle in fleet order.
\<close>

theorem options_count:
  assumes "options W R F req = Inr opts"
  shows "length opts = length (available_wh W (product req)) * length F \<and>
         map (\<lambda>c. (warehouse c, vehicle c)) opts =
           map (\<lambda>(wh, v). (location wh, vehicle_type v))
             (List.product (available_wh W (product req)) F)"
  using options_Inr [OF assms] by (auto simp: length_build_options build_options_pairs)

theorem options_count_witness:
  "options demo_warehouse demo_routes demo_fleet demo_request = Inr demo_options \<and>
   length (available_wh demo_warehouse (product demo_request)) = 2 \<and>
   length demo_fleet = 3 \<and>
   length demo_options = 6 \<and>
   map (\<lambda>c. (warehouse c, vehicle c)) demo_options =
     [(''Mumbai'', ''Truck''), (''Mumbai'', ''Van''), (''Mumbai'', ''Bike''),
      (''Kolkata'', ''Truck''), (''Kolkata'', ''Van''), (''Kolkata'', ''Bike'')] \<and>
   map inventory_health demo_options = [80, 80, 80, 200, 200, 200]"
proof -
  have e: "length (available_wh demo_warehouse (product demo_request)) = 2"
    "length demo_fleet = 3"
    "map (\<lambda>(wh, v). (location wh, vehicle_type v))
       (List.product (available_wh demo_warehouse (product demo_request)) demo_fleet) =
     [(''Mumbai'', ''Truck''), (''Mumbai'', ''Van''), (''Mumbai'', ''Bike''),
      (''Kolkata'', ''Truck''), (''Kolkata'', ''Van''), (''Kolkata'', ''Bike'')]"
    "map inventory_health demo_options = [80, 80, 80, 200, 200, 200]"
    by code_simp+
  show ?thesis
    using options_count [OF demo_options_eval] demo_options_eval e by simp
qed

subsection \<open>Scores\<close>



subsection \<open>Selection\<close>

lemma tie_submit_eval:
  "submit tie_warehouse tie_routes tie_fleet tie_request = Inr tie_df"
  by code_simp

lemma tie_sort_values: "sort_values tie_df tie_sorted"
  by code_simp

lemma tie_head: "iloc0 tie_sorted = Inr (tie_df ! 8)"
  by code_simp

lemma tie_scores:
  "fulfillment_score (tie_df ! 8) = 1 / 10" "fulfillment_score (tie_df ! 3) = 1 / 10"
  by code_simp+

lemma sort_key_head_first_min:
  "sort_key f xs = y # ys \<Longrightarrow> find (\<lambda>c. f c = Min (f ` set xs)) xs = Some y"
  for f :: "'a \<Rightarrow> real"
proof (induction xs arbitrary: y ys)
  case Nil
  then show ?case by simp
next
  case (Cons x xs)
  show ?case
  proof (cases "sort_key f xs")
    case Nil
    then have "xs = []" by (metis length_0_conv length_sort)
    then show ?thesis using Cons.prems by simp
  next
    case c: (Cons h t)
    then have ne: "xs \<noteq> []" by auto
    from Cons.IH [OF c] have fh: "find (\<lambda>c. f c = Min (f ` set xs)) xs = Some h" .
    then have mh: "f h = Min (f ` set xs)" by (auto simp: find_Some_iff)
    have mins: "Min (f ` set (x # xs)) = min (f x) (Min (f ` set xs))"
      using ne by (simp add: Min_insert)
    show ?thesis
    proof (cases "f x \<le> f h")
      case True
      then have "y = x" using Cons.prems c by simp
      moreover have "Min (f ` set (x # xs)) = f x" using mins mh True by simp
      ultimately show ?thesis by simp
    next
      case False
      then have "y = h" using Cons.prems c by simp
      moreover have "Min (f ` set (x # xs)) = Min (f ` set xs)" "f x \<noteq> Min (f ` set xs)"
        using mins mh False by simp_all
      ultimately show ?thesis using fh by simp
    qed
  qed
qed

lemma first_minimum_Min:
  "df \<noteq> [] \<Longrightarrow>
   first_minimum df = find (\<lambda>c. fulfillment_score c = Min (fulfillment_score ` set df)) df"
proof (cases df)
  case Nil
  then show "df \<noteq> [] \<Longrightarrow> ?thesis" by simp
next
  case (Cons x xs)
  have "Min (set (fulfillment_score x # map fulfillment_score xs)) =
        fold min (map fulfillment_score xs) (fulfillment_score x)"
    by (rule Min.set_eq_fold)
  then show ?thesis using Cons by (simp add: first_minimum_def)
qed

lemma stable_sort_first_minimum:
  assumes "df \<noteq> []"
  shows "\<exists>b. iloc0 (sort_key fulfillment_score df) = Inr b \<and> first_minimum df = Some b"
proof -
  from assms obtain y ys where s: "sort_key fulfillment_score df = y # ys"
    by (cases "sort_key fulfillment_score df") (auto dest: arg_cong [where f = length])
  from sort_key_head_first_min [OF s] first_minimum_Min [OF assms]
  have "first_minimum df = Some y" by simp
  then show ?thesis using s by (simp add: iloc0_def)
qed

text \<open>
  C1, as the code has it. Sorting by score has a result (the stable sort is one), and the
  first row of every result of sorting a non-empty scored table is a candidate of the
  table whose score is the minimum of the score column. Which of several candidates with
  the minimal score comes first is not fixed by the code; the stable sort puts first the
  one that is first in generation order.
\<close>

theorem best_option_minimum:
  "sort_values df (sort_key fulfillment_score df) \<and>
   (sort_values df out \<and> df \<noteq> [] \<longrightarrow>
      (\<exists>b. iloc0 out = Inr b \<and> b \<in> set df \<and>
           fulfillment_score b = Min (fulfillment_score ` set df))) \<and>
   (df \<noteq> [] \<longrightarrow>
      (\<exists>b. iloc0 (sort_key fulfillment_score df) = Inr b \<and> first_minimum df = Some b))"
  using sort_values_head [of df out] stable_sort_first_minimum [of df]
  by (simp add: sort_values_def sorted_sort_key)

theorem best_option_minimum_witness:
  "sort_values tie_df tie_sorted \<and> tie_df \<noteq> [] \<and>
   iloc0 tie_sorted = Inr (tie_df ! 8) \<and> tie_df ! 8 \<in> set tie_df \<and>
   Min (fulfillment_score ` set tie_df) = 1 / 10 \<and>
   iloc0 (sort_key fulfillment_score tie_df) = Inr (tie_df ! 3)"
proof -
  have ne: "tie_df \<noteq> []" by code_simp
  have f: "first_minimum tie_df = Some (tie_df ! 3)" by code_simp
  note t = best_option_minimum [of tie_df tie_sorted]
  from t tie_sort_values ne
  obtain b where b: "iloc0 tie_sorted = Inr b" "b \<in> set tie_df"
    "fulfillment_score b = Min (fulfillment_score ` set tie_df)"
    by blast
  from b(1) tie_head have "b = tie_df ! 8" by simp
  moreover from t ne f have "iloc0 (sort_key fulfillment_score tie_df) = Inr (tie_df ! 3)"
    by auto
  ultimately show ?thesis using b tie_sort_values ne tie_head tie_scores(1) by simp
qed

text \<open>
  C1 as stated fails. In the table of eighteen candidates the fourth and the ninth share
  the minimal score 1/10; the order that puts the ninth first is a result of the sort, so
  the ninth candidate is a selected best option, while the first candidate in generation
  order with the minimal score is the fourth.
\<close>

theorem best_option_tie_counterexample:
  "submit tie_warehouse tie_routes tie_fleet tie_request = Inr tie_df \<and>
   best_option tie_warehouse tie_routes tie_fleet tie_request (tie_df ! 8) \<and>
   first_minimum tie_df = Some (tie_df ! 3) \<and>
   tie_df ! 8 \<noteq> tie_df ! 3 \<and>
   fulfillment_score (tie_df ! 8) = fulfillment_score (tie_df ! 3)"
proof -
  have b: "best_option tie_warehouse tie_routes tie_fleet tie_request (tie_df ! 8)"
    using tie_submit_eval tie_sort_values tie_head by (rule best_option.intros)
  have f: "first_minimum tie_df = Some (tie_df ! 3)"
    by code_simp
  have v: "vehicle (tie_df ! 8) = ''V08''" "vehicle (tie_df ! 3) = ''V03''"
    by code_simp+
  have d: "tie_df ! 8 \<noteq> tie_df ! 3"
    using v by auto
  show ?thesis using tie_submit_eval b f d tie_scores by simp
qed

subsection \<open>Priority\<close>

text \<open>
  C9. Two requests that differ only in the priority give the same outcome of the handler:
  the same error or the same scored table with the same scores, and the same selected best
  options.
\<close>

theorem priority_no_effect:
  "submit W R F (req\<lparr>priority := p\<rparr>) = submit W R F req \<and>
   (best_option W R F (req\<lparr>priority := p\<rparr>) b \<longleftrightarrow> best_option W R F req b)"
proof -
  have "options W R F (req\<lparr>priority := p\<rparr>) = options W R F req"
    by (simp add: options_def Let_def)
  then have "submit W R F (req\<lparr>priority := p\<rparr>) = submit W R F req"
    by (simp add: submit_def)
  then show ?thesis by (simp add: best_option.simps)
qed

theorem priority_no_effect_witness:
  "submit demo_warehouse demo_routes demo_fleet (demo_request\<lparr>priority := ''Economy''\<rparr>) =
     Inr demo_df \<and>
   priority (demo_request\<lparr>priority := ''Economy''\<rparr>) \<noteq> priority demo_request"
proof -
  have "priority (demo_request\<lparr>priority := ''Economy''\<rparr>) \<noteq> priority demo_request"
    by (simp add: demo_request_def)
  then show ?thesis
    using priority_no_effect [where W = demo_warehouse and R = demo_routes and F = demo_fleet
        and req = demo_request and p = "''Economy''"]
      demo_submit_eval
    by simp
qed

end
